theory Spec2Isabelle
  imports Main
begin

section \<open>Python values and builtins used by the query builder\<close>

text \<open>
  The builder receives untyped Python values (\<open>Any\<close>). The variants below are the ones
  the callers in \<^verbatim>\<open>main.py\<close> produce: \<open>None\<close>, booleans, integers, floats (kept
  as an uninterpreted mantissa/exponent pair, since no function here computes with them),
  strings and lists.

  A \<open>string\<close> is a list of 8-bit characters, each read as one code point, so that
  \<open>length\<close> is Python's \<^verbatim>\<open>len\<close> and the elements are what a \<^verbatim>\<open>for\<close> loop over the string
  yields. Text with code points from 256 on is outside the model, and \<open>py_upper\<close> below
  is Python's \<^verbatim>\<open>upper()\<close> on ASCII text only.
\<close>

datatype pyval =
    VNone
  | VBool bool
  | VInt int
  | VFloat int int
  | VStr string
  | VList "pyval list"

datatype error =
    ValueError string
  | TypeError
  | IndexError
  | KeyError string

text \<open>\<^verbatim>\<open>len(val)\<close>: defined on strings and lists, \<open>TypeError\<close> on every other value.\<close>

fun py_len :: "pyval \<Rightarrow> error + nat" where
  "py_len (VStr s) = Inr (length s)"
| "py_len (VList vs) = Inr (length vs)"
| "py_len v = Inl TypeError"

text \<open>
  \<^verbatim>\<open>for v in val\<close>: a list yields its elements, a string yields its characters as
  one-character strings, every other value raises \<open>TypeError\<close>.
\<close>

fun py_iter :: "pyval \<Rightarrow> error + pyval list" where
  "py_iter (VStr s) = Inr (map (\<lambda>c. VStr [c]) s)"
| "py_iter (VList vs) = Inr vs"
| "py_iter v = Inl TypeError"

text \<open>
  \<^verbatim>\<open>str.upper()\<close>: the letters \<open>a\<close> to \<open>z\<close> are mapped to \<open>A\<close> to \<open>Z\<close>; every other
  character is kept, which is what Python does on ASCII text.
\<close>

definition upper_char :: "char \<Rightarrow> char" where
  "upper_char c =
     (case map_of (zip ''abcdefghijklmnopqrstuvwxyz'' ''ABCDEFGHIJKLMNOPQRSTUVWXYZ'') c of
        None \<Rightarrow> c
      | Some u \<Rightarrow> u)"

definition py_upper :: "string \<Rightarrow> string" where
  "py_upper s = map upper_char s"

text \<open>\<^verbatim>\<open>s.endswith(t)\<close> and \<^verbatim>\<open>s.startswith(t)\<close>.\<close>

definition endswith :: "string \<Rightarrow> string \<Rightarrow> bool" where
  "endswith s t = (length t \<le> length s \<and> drop (length s - length t) s = t)"


text \<open>\<^verbatim>\<open>sep.join(parts)\<close> on strings.\<close>

fun py_join :: "string \<Rightarrow> string list \<Rightarrow> string" where
  "py_join sep [] = []"
| "py_join sep [x] = x"
| "py_join sep (x # y # ys) = x @ sep @ py_join sep (y # ys)"

section \<open>The \<^verbatim>\<open>psycopg2.sql\<close> composition objects\<close>

text \<open>
  \<^verbatim>\<open>security.py\<close> assembles statements from \<^verbatim>\<open>sql.SQL\<close>, \<^verbatim>\<open>sql.Identifier\<close> and
  \<^verbatim>\<open>sql.Placeholder()\<close>; \<open>format\<close> and \<open>join\<close> return a \<^verbatim>\<open>sql.Composed\<close>, which keeps
  its parts as a (nested) sequence. \<open>as_string\<close> renders a snippet as is, an identifier
  between double quotes (an embedded double quote doubled), the unnamed placeholder as
  \<^verbatim>\<open>%s\<close>, and a composed object as the concatenation of its parts.
\<close>

datatype composable =
    SQL string
  | Identifier string
  | Placeholder
  | Composed "composable list"

definition quote_ident :: "string \<Rightarrow> string" where
  "quote_ident s =
     CHR 0x22 # concat (map (\<lambda>c. if c = CHR 0x22 then [CHR 0x22, CHR 0x22] else [c]) s)
       @ [CHR 0x22]"

fun as_string :: "composable \<Rightarrow> string" where
  "as_string (SQL s) = s"
| "as_string (Identifier s) = quote_ident s"
| "as_string Placeholder = ''%s''"
| "as_string (Composed parts) = concat (map as_string parts)"

text \<open>The number of placeholders of a statement, that is, of parameters it binds.\<close>

fun count_placeholders :: "composable \<Rightarrow> nat" where
  "count_placeholders (SQL s) = 0"
| "count_placeholders (Identifier s) = 0"
| "count_placeholders Placeholder = 1"
| "count_placeholders (Composed parts) = sum_list (map count_placeholders parts)"

text \<open>
  \<^verbatim>\<open>SQL(template).format(*args)\<close>: the template is cut at each \<^verbatim>\<open>{}\<close>; every
  non-empty literal piece becomes an \<open>SQL\<close> part and every \<^verbatim>\<open>{}\<close> the next argument.
  The templates of \<^verbatim>\<open>security.py\<close> use only the automatic field \<^verbatim>\<open>{}\<close>. A field with
  no argument left raises \<open>IndexError\<close>.
\<close>

definition literal_part :: "string \<Rightarrow> composable list" where
  "literal_part pre = (if pre = [] then [] else [SQL pre])"

fun format_parts :: "string \<Rightarrow> string \<Rightarrow> composable list \<Rightarrow> error + composable list" where
  "format_parts pre [] args = Inr (literal_part pre)"
| "format_parts pre [c] args = Inr (literal_part (pre @ [c]))"
| "format_parts pre (c # d # rest) args =
     (if c = CHR ''{'' \<and> d = CHR ''}'' then
        (case args of
           [] \<Rightarrow> Inl IndexError
         | a # args' \<Rightarrow>
             (case format_parts [] rest args' of
                Inl e \<Rightarrow> Inl e
              | Inr parts \<Rightarrow> Inr (literal_part pre @ a # parts)))
      else format_parts (pre @ [c]) (d # rest) args)"

definition sql_format :: "string \<Rightarrow> composable list \<Rightarrow> error + composable" where
  "sql_format template args = map_sum id Composed (format_parts [] template args)"

text \<open>\<^verbatim>\<open>sep.join(seq)\<close>: the elements of \<open>seq\<close> with \<open>sep\<close> between them, composed.\<close>

fun join_parts :: "composable \<Rightarrow> composable list \<Rightarrow> composable list" where
  "join_parts sep [] = []"
| "join_parts sep [x] = [x]"
| "join_parts sep (x # y # ys) = x # sep # join_parts sep (y # ys)"

definition sql_join :: "composable \<Rightarrow> composable list \<Rightarrow> composable" where
  "sql_join sep seq = Composed (join_parts sep seq)"

text \<open>Sequencing of computations that may raise: the first exception wins.\<close>

definition bind_err :: "error + 'a \<Rightarrow> ('a \<Rightarrow> error + 'b) \<Rightarrow> error + 'b" where
  "bind_err m f = (case m of Inl e \<Rightarrow> Inl e | Inr x \<Rightarrow> f x)"

text \<open>Running a list of computations in order, stopping at the first exception.\<close>

fun those_err :: "(error + 'a) list \<Rightarrow> error + 'a list" where
  "those_err [] = Inr []"
| "those_err (m # ms) = bind_err m (\<lambda>x. bind_err (those_err ms) (\<lambda>xs. Inr (x # xs)))"

section \<open>\<^verbatim>\<open>security.py\<close>: class \<open>QueryBuilder\<close>\<close>

text \<open>The whitelist \<^verbatim>\<open>VALID_IDENTIFIERS\<close>: a dictionary from table name to column list.\<close>

definition VALID_IDENTIFIERS :: "(string \<times> string list) list" where
  "VALID_IDENTIFIERS =
     [(''categories'', [''category_id'', ''category_name'', ''description'', ''created_at'']),
      (''suppliers'', [''supplier_id'', ''supplier_name'', ''contact_person'', ''email'',
                       ''phone'', ''address'', ''created_at'']),
      (''products'', [''product_id'', ''product_name'', ''category_id'', ''supplier_id'',
                      ''price'', ''cost'', ''quantity'', ''sku'', ''description'',
                      ''created_at'', ''updated_at'']),
      (''inventory_transactions'', [''transaction_id'', ''product_id'', ''transaction_type'',
                                    ''quantity_change'', ''previous_quantity'', ''new_quantity'',
                                    ''reference'', ''notes'', ''created_at'', ''created_by''])]"

text \<open>
  \<^verbatim>\<open>validate_identifier(table, column=None)\<close>. The column is optional; the test
  \<^verbatim>\<open>if column and ...\<close> is Python truthiness, so \<open>None\<close> and the empty string both skip
  the membership check.
\<close>

definition validate_identifier :: "string \<Rightarrow> string option \<Rightarrow> bool" where
  "validate_identifier table column =
     (case map_of VALID_IDENTIFIERS table of
        None \<Rightarrow> False
      | Some columns \<Rightarrow>
          (case column of
             None \<Rightarrow> True
           | Some c \<Rightarrow> if c \<noteq> [] \<and> c \<notin> set columns then False else True))"

text \<open>
  A filter is the tuple \<^verbatim>\<open>(col, op, val)\<close>. The body of the loop over the filters, shared
  word for word by \<^verbatim>\<open>build_select_query\<close> and \<^verbatim>\<open>build_update_query\<close>: the column is
  validated, then the condition is rendered; the operator is compared with \<^verbatim>\<open>'IN'\<close>
  after \<^verbatim>\<open>upper()\<close> and otherwise wrapped in \<^verbatim>\<open>sql.SQL\<close> as it is.
\<close>

type_synonym filter = "string \<times> string \<times> pyval"

definition where_condition :: "string \<Rightarrow> filter \<Rightarrow> error + composable" where
  "where_condition table f =
     (case f of (col, op, val) \<Rightarrow>
        if \<not> validate_identifier table (Some col) then
          Inl (ValueError (''Invalid column name: '' @ col))
        else if py_upper op = ''IN'' then
          bind_err (py_len val) (\<lambda>n.
            sql_format ''{} IN ({})''
              [Identifier col, sql_join (SQL '', '') (replicate n Placeholder)])
        else
          sql_format ''{} {} {}'' [Identifier col, SQL op, Placeholder])"

fun where_conditions :: "string \<Rightarrow> filter list \<Rightarrow> error + composable list" where
  "where_conditions table [] = Inr []"
| "where_conditions table (f # fs) =
     bind_err (where_condition table f) (\<lambda>c.
       bind_err (where_conditions table fs) (\<lambda>cs. Inr (c # cs)))"

text \<open>
  \<^verbatim>\<open>build_select_query(table, filters=None)\<close>; \<^verbatim>\<open>if filters:\<close> is false for \<open>None\<close>
  and for the empty list.
\<close>

definition build_select_query :: "string \<Rightarrow> filter list option \<Rightarrow> error + composable" where
  "build_select_query table filters =
     (if \<not> validate_identifier table None then
        Inl (ValueError (''Invalid table name: '' @ table))
      else
        bind_err (sql_format ''SELECT * FROM {}'' [Identifier table]) (\<lambda>query.
          case filters of
            None \<Rightarrow> Inr query
          | Some [] \<Rightarrow> Inr query
          | Some fs \<Rightarrow>
              bind_err (where_conditions table fs) (\<lambda>conditions.
                sql_format ''{} WHERE {}'' [query, sql_join (SQL '' AND '') conditions])))"

text \<open>The loop over \<^verbatim>\<open>set_clauses\<close> of \<^verbatim>\<open>build_update_query\<close>.\<close>

fun set_parts :: "string \<Rightarrow> (string \<times> pyval) list \<Rightarrow> error + composable list" where
  "set_parts table [] = Inr []"
| "set_parts table ((col, val) # rest) =
     (if \<not> validate_identifier table (Some col) then
        Inl (ValueError (''Invalid column name: '' @ col))
      else
        bind_err (sql_format ''{} = {}'' [Identifier col, Placeholder]) (\<lambda>p.
          bind_err (set_parts table rest) (\<lambda>ps. Inr (p # ps))))"

definition build_update_query ::
  "string \<Rightarrow> (string \<times> pyval) list \<Rightarrow> filter list \<Rightarrow> error + composable" where
  "build_update_query table set_clauses where_clauses =
     (if \<not> validate_identifier table None then
        Inl (ValueError (''Invalid table name: '' @ table))
      else
        bind_err (set_parts table set_clauses) (\<lambda>sets.
          bind_err (where_conditions table where_clauses) (\<lambda>where_parts.
            sql_format ''UPDATE {} SET {} WHERE {}''
              [Identifier table, sql_join (SQL '', '') sets,
               sql_join (SQL '' AND '') where_parts])))"

text \<open>\<^verbatim>\<open>build_insert_query(table, columns, values_list)\<close>.\<close>

definition build_insert_query ::
  "string \<Rightarrow> string list \<Rightarrow> pyval list list \<Rightarrow> error + composable" where
  "build_insert_query table columns values_list =
     (if \<not> validate_identifier table None then
        Inl (ValueError (''Invalid table name: '' @ table))
      else
        (case find (\<lambda>col. \<not> validate_identifier table (Some col)) columns of
           Some col \<Rightarrow> Inl (ValueError (''Invalid column name: '' @ col))
         | None \<Rightarrow>
             (let columns_sql = sql_join (SQL '', '') (map Identifier columns) in
              bind_err
                (those_err (map (\<lambda>values.
                   sql_format ''({})''
                     [sql_join (SQL '', '') (replicate (length values) Placeholder)])
                   values_list))
                (\<lambda>values_placeholders.
                   sql_format ''INSERT INTO {} ({}) VALUES {} RETURNING *''
                     [Identifier table, columns_sql,
                      sql_join (SQL '', '') values_placeholders]))))"

text \<open>
  \<^verbatim>\<open>sanitize_value(value)\<close>: \<^verbatim>\<open>re.sub(r'[;\'"\\]', '', value)\<close> on a string, the value
  itself otherwise. The character class holds the semicolon, the single quote, the
  double quote and the backslash.
\<close>

definition dangerous_chars :: "char set" where
  "dangerous_chars = {CHR 0x3B, CHR 0x27, CHR 0x22, CHR 0x5C}"

fun sanitize_value :: "pyval \<Rightarrow> pyval" where
  "sanitize_value (VStr s) = VStr (filter (\<lambda>c. c \<notin> dangerous_chars) s)"
| "sanitize_value v = v"

section \<open>\<^verbatim>\<open>database.py\<close>: \<open>DatabaseManager.execute_query\<close>\<close>

text \<open>
  A row is a dictionary from column name to value, kept as an association list in
  insertion order. The driver's cursor is outside the repository; it is a parameter
  \<open>cursor\<close> that maps the connection state, the statement text and the bound parameters
  to the rows a later \<^verbatim>\<open>fetchall()\<close> would give, or to \<open>None\<close> when the driver raises,
  and to the next connection state.
\<close>

type_synonym pydict = "(string \<times> pyval) list"

type_synonym 's executor = "'s \<Rightarrow> string \<Rightarrow> pyval list \<Rightarrow> pydict list option \<times> 's"




section \<open>\<^verbatim>\<open>operations.py\<close>: class \<open>InventoryOperations\<close>\<close>

text \<open>
  \<open>InventoryOperations\<close> is constructed with a database manager and reaches the database
  through \<^verbatim>\<open>self.db.execute_query(text, params)\<close> only. The manager is the parameter
  \<open>exec\<close>; the state threaded through the operations holds the manager's own state
  \<open>conn\<close> and the list \<open>sent\<close> of the statements handed to it so far, each with its
  parameter tuple, in call order.
\<close>

record 's db =
  sent :: "(string \<times> pyval list) list"
  conn :: "'s"

definition call_execute_query ::
  "'s executor \<Rightarrow> 's db \<Rightarrow> string \<Rightarrow> pyval list \<Rightarrow> pydict list option \<times> 's db" where
  "call_execute_query exec d query params =
     (case exec (conn d) query params of
        (result, c') \<Rightarrow> (result, \<lparr>sent = sent d @ [(query, params)], conn = c'\<rparr>))"

text \<open>
  What an operation prints before it returns without reaching the database. The last
  constructor is the \<^verbatim>\<open>except Exception as e\<close> branch, which prints the exception.
\<close>

datatype message =
    Invalid_column string string
  | Invalid_filter_column string
  | Invalid_update_column string
  | Cannot_update_ID_columns
  | No_records_to_insert
  | All_records_must_have_the_same_columns
  | Exception_caught error

text \<open>
  \<^verbatim>\<open>filter_multiple_values(table_name, filters)\<close>. The parameter loop mirrors the
  builder's: the elements of an \<open>IN\<close> value, or the single value, each sanitized.
\<close>

fun filter_params :: "filter list \<Rightarrow> error + pyval list" where
  "filter_params [] = Inr []"
| "filter_params ((col, op, val) # fs) =
     bind_err
       (if py_upper op = ''IN'' then
          bind_err (py_iter val) (\<lambda>vs. Inr (map sanitize_value vs))
        else Inr [sanitize_value val])
       (\<lambda>ps. bind_err (filter_params fs) (\<lambda>rest. Inr (ps @ rest)))"

definition filter_multiple_values ::
  "'s executor \<Rightarrow> 's db \<Rightarrow> string \<Rightarrow> filter list
     \<Rightarrow> (message + pydict list option) \<times> 's db" where
  "filter_multiple_values exec d table_name filters =
     (case find (\<lambda>(col, op, val). \<not> validate_identifier table_name (Some col)) filters of
        Some (col, op, val) \<Rightarrow> (Inl (Invalid_column col table_name), d)
      | None \<Rightarrow>
          (case bind_err (build_select_query table_name (Some filters)) (\<lambda>query.
                  bind_err (filter_params filters) (\<lambda>params. Inr (query, params))) of
             Inl e \<Rightarrow> (Inl (Exception_caught e), d)
           | Inr (query, params) \<Rightarrow>
               (case call_execute_query exec d (as_string query) params of
                  (results, d') \<Rightarrow> (Inr results, d'))))"

text \<open>\<^verbatim>\<open>update_single_record(table_name, record_id, updates)\<close>.\<close>

definition update_single_record ::
  "'s executor \<Rightarrow> 's db \<Rightarrow> string \<Rightarrow> pyval \<Rightarrow> pydict
     \<Rightarrow> (message + pydict list option) \<times> 's db" where
  "update_single_record exec d table_name record_id updates =
     (if ''id'' \<in> set (map fst updates) \<or> butlast table_name @ ''_id'' \<in> set (map fst updates)
      then (Inl Cannot_update_ID_columns, d)
      else
        (case find (\<lambda>col. \<not> validate_identifier table_name (Some col)) (map fst updates) of
           Some col \<Rightarrow> (Inl (Invalid_column col table_name), d)
         | None \<Rightarrow>
             (let set_clauses = updates;
                  id_column = (if endswith table_name ''s'' then butlast table_name @ ''_id''
                               else table_name @ ''_id'');
                  where_clauses = [(id_column, ''='', record_id)]
              in case build_update_query table_name set_clauses where_clauses of
                   Inl e \<Rightarrow> (Inl (Exception_caught e), d)
                 | Inr query \<Rightarrow>
                     (let params = map (\<lambda>(col, val). sanitize_value val) updates
                                     @ [sanitize_value record_id]
                      in case call_execute_query exec d (as_string query) params of
                           (result, d') \<Rightarrow> (Inr result, d')))))"

text \<open>
  \<^verbatim>\<open>update_multiple_records(table_name, filter_column, filter_values, update_column,
  new_value)\<close>.
\<close>

definition update_multiple_records ::
  "'s executor \<Rightarrow> 's db \<Rightarrow> string \<Rightarrow> string \<Rightarrow> pyval list \<Rightarrow> string \<Rightarrow> pyval
     \<Rightarrow> (message + pydict list option) \<times> 's db" where
  "update_multiple_records exec d table_name filter_column filter_values update_column new_value =
     (if \<not> validate_identifier table_name (Some filter_column) then
        (Inl (Invalid_filter_column filter_column), d)
      else if \<not> validate_identifier table_name (Some update_column) then
        (Inl (Invalid_update_column update_column), d)
      else if endswith update_column ''_id'' then
        (Inl Cannot_update_ID_columns, d)
      else
        (let set_clauses = [(update_column, new_value)];
             where_clauses = [(filter_column, ''IN'', VList filter_values)]
         in case build_update_query table_name set_clauses where_clauses of
              Inl e \<Rightarrow> (Inl (Exception_caught e), d)
            | Inr query \<Rightarrow>
                (let params = sanitize_value new_value # map sanitize_value filter_values
                 in case call_execute_query exec d (as_string query) params of
                      (result, d') \<Rightarrow> (Inr result, d'))))"




text \<open>
  The two branches after the insert: \<^verbatim>\<open>result[id_column]\<close> (a missing key raises
  \<open>KeyError\<close>), or the first key of the row that ends with \<^verbatim>\<open>_id\<close>. An empty row and
  \<open>None\<close> are both false.
\<close>

definition capture_id :: "pydict option \<Rightarrow> string \<Rightarrow> pyval list \<Rightarrow> error + pyval list" where
  "capture_id result id_column inserted_ids =
     (case result of
        None \<Rightarrow> Inr inserted_ids
      | Some row \<Rightarrow>
          if row \<noteq> [] \<and> id_column \<noteq> [] then
            (case map_of row id_column of
               None \<Rightarrow> Inl (KeyError id_column)
             | Some v \<Rightarrow> Inr (inserted_ids @ [v]))
          else if row \<noteq> [] then
            (case find (\<lambda>(key, v). endswith key ''_id'') row of
               None \<Rightarrow> Inr inserted_ids
             | Some (key, v) \<Rightarrow> Inr (inserted_ids @ [v]))
          else Inr inserted_ids)"



text \<open>\<^verbatim>\<open>insert_multiple_records(table_name, records)\<close>.\<close>

definition insert_multiple_records ::
  "'s executor \<Rightarrow> 's db \<Rightarrow> string \<Rightarrow> pydict list \<Rightarrow> (message + pydict list option) \<times> 's db" where
  "insert_multiple_records exec d table_name records =
     (case records of
        [] \<Rightarrow> (Inl No_records_to_insert, d)
      | first # others \<Rightarrow>
          (let columns = map fst first in
           if list_ex (\<lambda>record. set (map fst record) \<noteq> set columns) records then
             (Inl All_records_must_have_the_same_columns, d)
           else
             (case find (\<lambda>col. \<not> validate_identifier table_name (Some col)) columns of
                Some col \<Rightarrow> (Inl (Invalid_column col table_name), d)
              | None \<Rightarrow>
                  (let values_list = map (map snd) records in
                   case build_insert_query table_name columns values_list of
                     Inl e \<Rightarrow> (Inl (Exception_caught e), d)
                   | Inr query \<Rightarrow>
                       (let flat_values = concat (map (map sanitize_value) values_list)
                        in case call_execute_query exec d (as_string query) flat_values of
                             (result, d') \<Rightarrow> (Inr result, d'))))))"

section \<open>Properties\<close>

subsection \<open>The templates of \<^verbatim>\<open>security.py\<close>, formatted\<close>

lemma fmt_select [simp]:
  "sql_format ''SELECT * FROM {}'' [a] = Inr (Composed [SQL ''SELECT * FROM '', a])"
  by (simp add: sql_format_def literal_part_def)

lemma fmt_where [simp]:
  "sql_format ''{} WHERE {}'' [a, b] = Inr (Composed [a, SQL '' WHERE '', b])"
  by (simp add: sql_format_def literal_part_def)

lemma fmt_in [simp]:
  "sql_format ''{} IN ({})'' [a, b] = Inr (Composed [a, SQL '' IN ('', b, SQL '')''])"
  by (simp add: sql_format_def literal_part_def)

lemma fmt_op [simp]:
  "sql_format ''{} {} {}'' [a, b, c] = Inr (Composed [a, SQL '' '', b, SQL '' '', c])"
  by (simp add: sql_format_def literal_part_def)

lemma fmt_set [simp]:
  "sql_format ''{} = {}'' [a, b] = Inr (Composed [a, SQL '' = '', b])"
  by (simp add: sql_format_def literal_part_def)

lemma fmt_update [simp]:
  "sql_format ''UPDATE {} SET {} WHERE {}'' [a, b, c] =
     Inr (Composed [SQL ''UPDATE '', a, SQL '' SET '', b, SQL '' WHERE '', c])"
  by (simp add: sql_format_def literal_part_def)

lemma fmt_row [simp]:
  "sql_format ''({})'' [a] = Inr (Composed [SQL ''('', a, SQL '')''])"
  by (simp add: sql_format_def literal_part_def)

lemma fmt_insert [simp]:
  "sql_format ''INSERT INTO {} ({}) VALUES {} RETURNING *'' [a, b, c] =
     Inr (Composed [SQL ''INSERT INTO '', a, SQL '' ('', b, SQL '') VALUES '', c,
                    SQL '' RETURNING *''])"
  by (simp add: sql_format_def literal_part_def)

subsection \<open>Identifier validation\<close>

lemma distinct_registry: "distinct (map fst VALID_IDENTIFIERS)"
  by (simp add: VALID_IDENTIFIERS_def)

text \<open>
  Claim C2, as stated: \<open>validate_identifier(T, C)\<close> is true exactly when \<open>T\<close> is a key of
  the registry and \<open>C\<close> is in its column list. The empty string is in no column list, yet
  it passes for a registered table.
\<close>

theorem validate_identifier_empty_column_counterexample:
  "validate_identifier ''products'' (Some '''') \<and>
   '''' \<notin> set (the (map_of VALID_IDENTIFIERS ''products''))"
  by (simp add: validate_identifier_def VALID_IDENTIFIERS_def)

text \<open>
  Claim C2, amended: for every table name \<open>T\<close> and column name \<open>C\<close>,
  \<open>validate_identifier(T, C)\<close> is true exactly when \<open>T\<close> is a key of the registry and
  \<open>C\<close> is in the registry's column list for \<open>T\<close> or is the empty string. In particular
  it is false whenever \<open>T\<close> is absent, and for a registered \<open>T\<close> whenever \<open>C\<close> is
  non-empty and not listed. The function is total: it returns a boolean on every pair of
  strings.
\<close>

theorem validate_identifier_iff_registered:
  "validate_identifier T (Some C) \<longleftrightarrow>
     (\<exists>cols. (T, cols) \<in> set VALID_IDENTIFIERS \<and> (C = [] \<or> C \<in> set cols))"
proof -
  have registered: "map_of VALID_IDENTIFIERS T = Some cols \<longleftrightarrow> (T, cols) \<in> set VALID_IDENTIFIERS"
    for cols
    using distinct_registry by simp
  show ?thesis
  proof (cases "map_of VALID_IDENTIFIERS T")
    case None
    then have "\<And>cols. (T, cols) \<notin> set VALID_IDENTIFIERS"
      using registered by simp
    with None show ?thesis
      by (simp add: validate_identifier_def)
  next
    case (Some columns)
    then have "\<And>cols. (T, cols) \<in> set VALID_IDENTIFIERS \<longleftrightarrow> cols = columns"
      using registered [symmetric] by auto
    with Some show ?thesis
      by (auto simp: validate_identifier_def)
  qed
qed

theorem validate_identifier_iff_registered_witness:
  "validate_identifier ''products'' (Some ''price'') \<and>
   \<not> validate_identifier ''products'' (Some ''email'') \<and>
   \<not> validate_identifier ''orders'' (Some ''price'') \<and>
   validate_identifier ''products'' (Some '''') \<and>
   \<not> validate_identifier ''orders'' (Some '''')"
  using validate_identifier_iff_registered [of "''products''" "''price''"]
    validate_identifier_iff_registered [of "''products''" "''email''"]
    validate_identifier_iff_registered [of "''orders''" "''price''"]
    validate_identifier_iff_registered [of "''products''" "''''"]
    validate_identifier_iff_registered [of "''orders''" "''''"]
  by (simp add: VALID_IDENTIFIERS_def)

text \<open>
  Claim C10: for every registered table, validation succeeds when the column is omitted
  (\<open>None\<close>) or is the empty string; the membership check is skipped for a false column.
\<close>

theorem validate_identifier_falsy_column:
  "T \<in> set (map fst VALID_IDENTIFIERS) \<Longrightarrow>
   validate_identifier T None \<and> validate_identifier T (Some '''')"
  by (auto simp: validate_identifier_def map_of_eq_None_iff split: option.splits)

theorem validate_identifier_falsy_column_witness:
  "validate_identifier ''suppliers'' None \<and> validate_identifier ''suppliers'' (Some '''')"
  using validate_identifier_falsy_column [of "''suppliers''"]
  by (simp add: VALID_IDENTIFIERS_def)

subsection \<open>Value sanitizing\<close>

text \<open>
  Claim C3: on a string, \<open>sanitize_value\<close> removes every semicolon, single quote, double
  quote and backslash and keeps the other characters in order; a value that is not a
  string is returned unchanged; \<^verbatim>\<open>O'Brien;DROP\<close> becomes \<^verbatim>\<open>OBrienDROP\<close> and \<open>42\<close> stays
  \<open>42\<close>.
\<close>

theorem sanitize_value_removes_dangerous_chars:
  "sanitize_value (VStr s) =
     VStr (filter (\<lambda>c. c \<noteq> CHR '';'' \<and> c \<noteq> CHR 0x27 \<and> c \<noteq> CHR 0x22 \<and> c \<noteq> CHR 0x5C) s)
   \<and> ((\<forall>t. v \<noteq> VStr t) \<longrightarrow> sanitize_value v = v)
   \<and> sanitize_value (VStr (''O'' @ CHR 0x27 # ''Brien;DROP'')) = VStr ''OBrienDROP''
   \<and> sanitize_value (VInt 42) = VInt 42"
  by (cases v) (simp_all add: dangerous_chars_def)

theorem sanitize_value_removes_dangerous_chars_witness:
  "sanitize_value (VStr (''a\"b'' @ CHR 0x5C # ''c'')) = VStr ''abc''
   \<and> sanitize_value (VList [VStr ''x;y'']) = VList [VStr ''x;y'']"
  using sanitize_value_removes_dangerous_chars [of "''a\"b'' @ CHR 0x5C # ''c''" "VList [VStr ''x;y'']"]
  by simp

subsection \<open>Rendering of joined and composed parts\<close>

lemma as_string_join_parts:
  "concat (map as_string (join_parts (SQL sep) xs)) = py_join sep (map as_string xs)"
  by (induction xs rule: induct_list012) simp_all

lemma as_string_sql_join [simp]:
  "as_string (sql_join (SQL sep) xs) = py_join sep (map as_string xs)"
  by (simp add: sql_join_def as_string_join_parts)

lemma count_join_parts:
  "sum_list (map count_placeholders (join_parts (SQL sep) xs)) =
     sum_list (map count_placeholders xs)"
  by (induction xs rule: induct_list012) simp_all

lemma count_sql_join [simp]:
  "count_placeholders (sql_join (SQL sep) xs) = sum_list (map count_placeholders xs)"
  by (simp add: sql_join_def count_join_parts)

lemma validate_column_table:
  "validate_identifier table (Some col) \<Longrightarrow> validate_identifier table None"
  by (simp add: validate_identifier_def split: option.splits)

lemma where_condition_IN:
  "validate_identifier table (Some col) \<Longrightarrow> py_upper op = ''IN'' \<Longrightarrow> py_len val = Inr n \<Longrightarrow>
   where_condition table (col, op, val) =
     Inr (Composed [Identifier col, SQL '' IN ('',
            sql_join (SQL '', '') (replicate n Placeholder), SQL '')''])"
  by (simp add: where_condition_def bind_err_def)

lemma where_condition_op:
  "validate_identifier table (Some col) \<Longrightarrow> py_upper op \<noteq> ''IN'' \<Longrightarrow>
   where_condition table (col, op, val) =
     Inr (Composed [Identifier col, SQL '' '', SQL op, SQL '' '', Placeholder])"
  by (simp add: where_condition_def bind_err_def)

lemma where_conditions_append:
  "where_conditions table fs = Inr cs \<Longrightarrow> where_conditions table gs = Inr ds \<Longrightarrow>
   where_conditions table (fs @ gs) = Inr (cs @ ds)"
  by (induction fs arbitrary: cs) (auto simp: bind_err_def split: sum.splits)

lemma where_conditions_all:
  "(\<And>f. f \<in> set fs \<Longrightarrow> where_condition table f = Inr (render f)) \<Longrightarrow>
   where_conditions table fs = Inr (map render fs)"
  by (induction fs) (simp_all add: bind_err_def)

lemma set_parts_all:
  "\<forall>(col, val) \<in> set sets. validate_identifier table (Some col) \<Longrightarrow>
   set_parts table sets =
     Inr (map (\<lambda>(col, val). Composed [Identifier col, SQL '' = '', Placeholder]) sets)"
  by (induction sets) (auto simp: bind_err_def)

lemma build_select_query_where:
  "validate_identifier table None \<Longrightarrow> fs \<noteq> [] \<Longrightarrow> where_conditions table fs = Inr cs \<Longrightarrow>
   build_select_query table (Some fs) =
     Inr (Composed [Composed [SQL ''SELECT * FROM '', Identifier table], SQL '' WHERE '',
                    sql_join (SQL '' AND '') cs])"
  by (cases fs) (simp_all add: build_select_query_def bind_err_def)

lemma build_update_query_parts:
  "validate_identifier table None \<Longrightarrow> set_parts table sets = Inr ss \<Longrightarrow>
   where_conditions table fs = Inr cs \<Longrightarrow>
   build_update_query table sets fs =
     Inr (Composed [SQL ''UPDATE '', Identifier table, SQL '' SET '', sql_join (SQL '', '') ss,
                    SQL '' WHERE '', sql_join (SQL '' AND '') cs])"
  by (simp add: build_update_query_def bind_err_def)

lemma py_upper_simps [simp]:
  "py_upper [] = []" "py_upper (c # s) = upper_char c # py_upper s"
  by (simp_all add: py_upper_def)

subsection \<open>Statement texts of SELECT and UPDATE\<close>

lemma as_string_select_where:
  "validate_identifier table None \<Longrightarrow> fs \<noteq> [] \<Longrightarrow> where_conditions table fs = Inr cs \<Longrightarrow>
   map_sum id as_string (build_select_query table (Some fs)) =
     Inr (''SELECT * FROM '' @ quote_ident table @ '' WHERE ''
            @ py_join '' AND '' (map as_string cs))"
  by (simp add: build_select_query_where)

lemma as_string_update:
  "validate_identifier table None \<Longrightarrow> set_parts table sets = Inr ss \<Longrightarrow>
   where_conditions table fs = Inr cs \<Longrightarrow>
   map_sum id as_string (build_update_query table sets fs) =
     Inr (''UPDATE '' @ quote_ident table @ '' SET '' @ py_join '', '' (map as_string ss)
            @ '' WHERE '' @ py_join '' AND '' (map as_string cs))"
  by (simp add: build_update_query_parts)

subsection \<open>Operators\<close>

text \<open>
  The menu of \<^verbatim>\<open>main.py\<close> offers the operators \<^verbatim>\<open>=, !=, >, <, >=, <=, LIKE, IN\<close>.
  The operator \<^verbatim>\<open><>\<close> is not one of them; both builders return a statement that
  embeds it.
\<close>

theorem unlisted_operator_is_embedded:
  "''<>'' \<notin> {''='', ''!='', ''>'', ''<'', ''>='', ''<='', ''LIKE'', ''IN''} \<and>
   map_sum id as_string (build_select_query ''products'' (Some [(''price'', ''<>'', VInt 10)]))
     = Inr ''SELECT * FROM \"products\" WHERE \"price\" <> %s'' \<and>
   map_sum id as_string
     (build_update_query ''products'' [(''price'', VInt 5)] [(''price'', ''<>'', VInt 10)])
     = Inr ''UPDATE \"products\" SET \"price\" = %s WHERE \"price\" <> %s''"
  by (simp add: build_select_query_def build_update_query_def bind_err_def where_condition_def
      validate_identifier_def VALID_IDENTIFIERS_def upper_char_def quote_ident_def
      sql_join_def)

text \<open>
  Claim C1 requires that a SELECT or UPDATE request with a condition whose operator is
  not one of those eight is rejected with an error and produces no statement. The
  builders have no such check, although the class is documented as a builder that
  prevents SQL injection: for a registered table, registered columns and conditions
  whose operators are not \<open>IN\<close> (compared after \<open>upper()\<close>), \<open>build_select_query\<close> and
  \<open>build_update_query\<close> return a statement whatever the operator strings are, and each
  operator stands in the text as it was given, between the quoted column and the
  placeholder.
\<close>

theorem operator_is_embedded_unchecked:
  "validate_identifier table None \<Longrightarrow>
   \<forall>(col, op, val) \<in> set fs. validate_identifier table (Some col) \<and> py_upper op \<noteq> ''IN'' \<Longrightarrow>
   \<forall>(col, val) \<in> set sets. validate_identifier table (Some col) \<Longrightarrow>
   (fs \<noteq> [] \<longrightarrow>
      map_sum id as_string (build_select_query table (Some fs)) =
        Inr (''SELECT * FROM '' @ quote_ident table @ '' WHERE ''
               @ py_join '' AND ''
                   (map (\<lambda>(col, op, val). quote_ident col @ '' '' @ op @ '' %s'') fs)))
   \<and> map_sum id as_string (build_update_query table sets fs) =
        Inr (''UPDATE '' @ quote_ident table @ '' SET ''
               @ py_join '', '' (map (\<lambda>(col, val). quote_ident col @ '' = %s'') sets)
               @ '' WHERE ''
               @ py_join '' AND ''
                   (map (\<lambda>(col, op, val). quote_ident col @ '' '' @ op @ '' %s'') fs))"
proof -
  assume table: "validate_identifier table None"
    and filters:
      "\<forall>(col, op, val) \<in> set fs. validate_identifier table (Some col) \<and> py_upper op \<noteq> ''IN''"
    and sets: "\<forall>(col, val) \<in> set sets. validate_identifier table (Some col)"
  let ?cond = "\<lambda>(col, op, val). Composed [Identifier col, SQL '' '', SQL op, SQL '' '', Placeholder]"
  let ?assign = "\<lambda>(col, val). Composed [Identifier col, SQL '' = '', Placeholder]"
  have "where_condition table f = Inr (?cond f)" if "f \<in> set fs" for f
    using that filters by (cases f) (auto simp: where_condition_op)
  then have conds: "where_conditions table fs = Inr (map ?cond fs)"
    by (rule where_conditions_all)
  have parts: "set_parts table sets = Inr (map ?assign sets)"
    using sets by (rule set_parts_all)
  have cond_text:
    "map as_string (map ?cond fs) = map (\<lambda>(col, op, val). quote_ident col @ '' '' @ op @ '' %s'') fs"
    by (simp add: case_prod_beta)
  have assign_text:
    "map as_string (map ?assign sets) = map (\<lambda>(col, val). quote_ident col @ '' = %s'') sets"
    by (simp add: case_prod_beta)
  show ?thesis
    using as_string_select_where [OF table _ conds] as_string_update [OF table parts conds]
    unfolding cond_text assign_text by simp
qed

theorem operator_is_embedded_unchecked_witness:
  "map_sum id as_string
     (build_select_query ''products'' (Some [(''price'', ''> 0 OR 1 ='', VInt 1)]))
     = Inr ''SELECT * FROM \"products\" WHERE \"price\" > 0 OR 1 = %s'' \<and>
   map_sum id as_string
     (build_update_query ''products'' [(''cost'', VInt 0)] [(''price'', ''> 0 OR 1 ='', VInt 1)])
     = Inr ''UPDATE \"products\" SET \"cost\" = %s WHERE \"price\" > 0 OR 1 = %s''"
proof -
  have table: "validate_identifier ''products'' None"
    by (simp add: validate_identifier_def VALID_IDENTIFIERS_def)
  have filters: "\<forall>(col, op, val) \<in> set [(''price'', ''> 0 OR 1 ='', VInt 1)].
      validate_identifier ''products'' (Some col) \<and> py_upper op \<noteq> ''IN''"
    by (simp add: validate_identifier_def VALID_IDENTIFIERS_def upper_char_def)
  have sets: "\<forall>(col, val) \<in> set [(''cost'', VInt 0)]. validate_identifier ''products'' (Some col)"
    by (simp add: validate_identifier_def VALID_IDENTIFIERS_def)
  show ?thesis
    using operator_is_embedded_unchecked [OF table filters sets]
    by (simp add: quote_ident_def)
qed

subsection \<open>\<open>IN\<close> with an empty value list\<close>

text \<open>
  Claim C4, as stated: a SELECT or UPDATE request with an \<open>IN\<close> condition whose value
  list is empty is rejected, and no text containing \<^verbatim>\<open>IN ()\<close> is produced. Both
  builders return such a text.
\<close>

theorem empty_IN_list_counterexample:
  "map_sum id as_string
     (build_select_query ''products'' (Some [(''category_id'', ''IN'', VList [])]))
     = Inr ''SELECT * FROM \"products\" WHERE \"category_id\" IN ()'' \<and>
   map_sum id as_string
     (build_update_query ''products'' [(''price'', VInt 5)] [(''category_id'', ''IN'', VList [])])
     = Inr ''UPDATE \"products\" SET \"price\" = %s WHERE \"category_id\" IN ()''"
  by (simp add: build_select_query_def build_update_query_def bind_err_def where_condition_def
      validate_identifier_def VALID_IDENTIFIERS_def upper_char_def quote_ident_def
      sql_join_def)

text \<open>
  Claim C4, amended: an \<open>IN\<close> condition with an empty value list is not rejected.
  Wherever it stands among conditions that the builder accepts, the SELECT and the UPDATE
  are built and the condition is rendered as the quoted column followed by
  \<^verbatim>\<open> IN ()\<close>, with no placeholder.
\<close>

theorem empty_IN_list_is_rendered:
  "validate_identifier table (Some col) \<Longrightarrow> py_upper op = ''IN'' \<Longrightarrow>
   where_conditions table pre = Inr cs_pre \<Longrightarrow> where_conditions table post = Inr cs_post \<Longrightarrow>
   set_parts table sets = Inr ss \<Longrightarrow>
   map_sum id as_string (build_select_query table (Some (pre @ (col, op, VList []) # post))) =
     Inr (''SELECT * FROM '' @ quote_ident table @ '' WHERE ''
            @ py_join '' AND ''
                (map as_string cs_pre @ (quote_ident col @ '' IN ()'') # map as_string cs_post))
   \<and> map_sum id as_string (build_update_query table sets (pre @ (col, op, VList []) # post)) =
     Inr (''UPDATE '' @ quote_ident table @ '' SET '' @ py_join '', '' (map as_string ss)
            @ '' WHERE ''
            @ py_join '' AND ''
                (map as_string cs_pre @ (quote_ident col @ '' IN ()'') # map as_string cs_post))"
proof -
  assume column: "validate_identifier table (Some col)" and op: "py_upper op = ''IN''"
    and pre: "where_conditions table pre = Inr cs_pre"
    and post: "where_conditions table post = Inr cs_post"
    and parts: "set_parts table sets = Inr ss"
  let ?c = "Composed [Identifier col, SQL '' IN ('', sql_join (SQL '', '') [], SQL '')'']"
  have table: "validate_identifier table None"
    using column by (rule validate_column_table)
  have "where_condition table (col, op, VList []) = Inr ?c"
    using where_condition_IN [OF column op, of "VList []" 0] by simp
  with post have "where_conditions table ((col, op, VList []) # post) = Inr (?c # cs_post)"
    by (simp add: bind_err_def)
  with pre have conds:
    "where_conditions table (pre @ (col, op, VList []) # post) = Inr (cs_pre @ ?c # cs_post)"
    by (rule where_conditions_append)
  show ?thesis
    using as_string_select_where [OF table _ conds] as_string_update [OF table parts conds]
    by simp
qed

theorem empty_IN_list_is_rendered_witness:
  "map_sum id as_string
     (build_select_query ''products''
        (Some [(''price'', ''>'', VInt 10), (''category_id'', ''in'', VList [])]))
     = Inr ''SELECT * FROM \"products\" WHERE \"price\" > %s AND \"category_id\" IN ()'' \<and>
   map_sum id as_string
     (build_update_query ''products'' [(''cost'', VInt 0)]
        [(''price'', ''>'', VInt 10), (''category_id'', ''in'', VList [])])
     = Inr ''UPDATE \"products\" SET \"cost\" = %s WHERE \"price\" > %s AND \"category_id\" IN ()''"
proof -
  have column: "validate_identifier ''products'' (Some ''category_id'')"
    by (simp add: validate_identifier_def VALID_IDENTIFIERS_def)
  have op: "py_upper ''in'' = ''IN''"
    by (simp add: upper_char_def)
  have pre: "where_conditions ''products'' [(''price'', ''>'', VInt 10)] =
      Inr [Composed [Identifier ''price'', SQL '' '', SQL ''>'', SQL '' '', Placeholder]]"
    by (simp add: where_condition_def bind_err_def validate_identifier_def
        VALID_IDENTIFIERS_def upper_char_def)
  have post: "where_conditions ''products'' [] = Inr []"
    by simp
  have parts: "set_parts ''products'' [(''cost'', VInt 0)] =
      Inr [Composed [Identifier ''cost'', SQL '' = '', Placeholder]]"
    by (simp add: bind_err_def validate_identifier_def VALID_IDENTIFIERS_def)
  show ?thesis
    using empty_IN_list_is_rendered [OF column op pre post parts]
    by (simp add: quote_ident_def)
qed

subsection \<open>Placeholders and parameters\<close>

lemma count_replicate_placeholders [simp]:
  "sum_list (map count_placeholders (replicate n Placeholder)) = n"
  by (induction n) simp_all

lemma where_condition_valid:
  "where_condition table (col, op, val) = Inr c \<Longrightarrow> validate_identifier table (Some col)"
  by (simp add: where_condition_def split: if_splits)

lemma where_conditions_valid:
  "where_conditions table fs = Inr cs \<Longrightarrow>
   find (\<lambda>(col, op, val). \<not> validate_identifier table (Some col)) fs = None"
  by (induction fs arbitrary: cs)
    (auto simp: bind_err_def split: sum.splits dest: where_condition_valid)

lemma py_iter_len: "py_len val = Inr n \<Longrightarrow> \<exists>vs. py_iter val = Inr vs \<and> length vs = n"
  by (cases val) auto

lemma where_condition_params:
  "where_condition table (col, op, val) = Inr c \<Longrightarrow>
   \<exists>ps. filter_params [(col, op, val)] = Inr ps \<and> length ps = count_placeholders c"
proof (cases "py_upper op = ''IN''")
  case True
  assume built: "where_condition table (col, op, val) = Inr c"
  then have column: "validate_identifier table (Some col)"
    by (rule where_condition_valid)
  from built column True obtain n where n: "py_len val = Inr n"
    by (cases "py_len val") (auto simp: where_condition_def bind_err_def)
  from py_iter_len [OF n] obtain vs where vs: "py_iter val = Inr vs" "length vs = n"
    by blast
  from built where_condition_IN [OF column True n] have "count_placeholders c = n"
    by (auto simp del: map_replicate)
  with True vs show ?thesis
    by (simp add: bind_err_def)
next
  case False
  assume built: "where_condition table (col, op, val) = Inr c"
  then have column: "validate_identifier table (Some col)"
    by (rule where_condition_valid)
  from built where_condition_op [OF column False, of val] have "count_placeholders c = 1"
    by auto
  with False show ?thesis
    by (simp add: bind_err_def)
qed

lemma filter_params_append:
  "filter_params fs = Inr ps \<Longrightarrow> filter_params gs = Inr qs \<Longrightarrow>
   filter_params (fs @ gs) = Inr (ps @ qs)"
  by (induction fs arbitrary: ps) (auto simp: bind_err_def split: sum.splits if_splits)

lemma filter_params_count:
  "where_conditions table fs = Inr cs \<Longrightarrow>
   \<exists>ps. filter_params fs = Inr ps \<and> length ps = sum_list (map count_placeholders cs)"
proof (induction fs arbitrary: cs)
  case Nil
  then show ?case by simp
next
  case (Cons f fs)
  obtain col op val where f: "f = (col, op, val)"
    by (cases f)
  from Cons.prems obtain c cs' where c: "where_condition table f = Inr c"
    and cs': "where_conditions table fs = Inr cs'" and cs: "cs = c # cs'"
    by (auto simp: bind_err_def split: sum.splits)
  from where_condition_params c f obtain ps
    where ps: "filter_params [f] = Inr ps" "length ps = count_placeholders c"
    by blast
  from Cons.IH [OF cs'] obtain qs
    where qs: "filter_params fs = Inr qs" "length qs = sum_list (map count_placeholders cs')"
    by blast
  from filter_params_append [OF ps(1) qs(1)] ps(2) qs(2) cs show ?case
    by simp
qed

lemma filter_multiple_values_sent:
  "where_conditions table fs = Inr cs \<Longrightarrow> fs \<noteq> [] \<Longrightarrow> filter_params fs = Inr ps \<Longrightarrow>
   sent (snd (filter_multiple_values exec d table fs)) =
     sent d @ [(''SELECT * FROM '' @ quote_ident table @ '' WHERE ''
                  @ py_join '' AND '' (map as_string cs), ps)]"
proof -
  assume conds: "where_conditions table fs = Inr cs" and nonempty: "fs \<noteq> []"
    and params: "filter_params fs = Inr ps"
  from conds nonempty have table: "validate_identifier table None"
    by (cases fs) (auto simp: bind_err_def split: sum.splits
        dest: where_condition_valid validate_column_table)
  show ?thesis
    unfolding filter_multiple_values_def where_conditions_valid [OF conds]
      build_select_query_where [OF table nonempty conds] params
    by (simp add: bind_err_def call_execute_query_def split: prod.splits)
qed

lemma as_string_placeholders [simp]:
  "map as_string (replicate n Placeholder) = replicate n ''%s''"
  by simp

text \<open>
  Claim C5, as stated: for an \<open>IN\<close> condition with \<open>N\<close> values the parameter list
  passed to the executor contains exactly those \<open>N\<close> values. The value \<^verbatim>\<open>A;1\<close> of
  the request below reaches the executor as \<^verbatim>\<open>A1\<close>.
\<close>

theorem IN_params_are_sanitized_counterexample:
  "sent (snd (filter_multiple_values (\<lambda>c q ps. (Some [], c)) \<lparr>sent = [], conn = ()\<rparr>
                ''products'' [(''sku'', ''IN'', VList [VStr ''A;1'', VStr ''B2''])]))
     = [(''SELECT * FROM \"products\" WHERE \"sku\" IN (%s, %s)'', [VStr ''A1'', VStr ''B2''])]"
  by (simp add: filter_multiple_values_def build_select_query_def bind_err_def
      where_condition_def validate_identifier_def VALID_IDENTIFIERS_def upper_char_def
      quote_ident_def sql_join_def call_execute_query_def dangerous_chars_def)

text \<open>
  Claim C5, amended: for an \<open>IN\<close> condition on a registered column with a value list of
  length \<open>N\<close>, standing anywhere among conditions that the builder accepts, the
  condition has exactly \<open>N\<close> placeholders and renders as the quoted column followed by
  \<^verbatim>\<open> IN (%s, ..., %s)\<close>; the conditions before and after it have as many parameters as
  placeholders; and the parameter list that \<open>filter_multiple_values\<close> passes to the
  executor is the parameters of the conditions before, then the \<open>N\<close> values each passed
  through \<open>sanitize_value\<close>, in their original order, then the parameters of the
  conditions after. For UPDATE, \<open>update_multiple_records\<close> passes the sanitized new value
  followed by the \<open>N\<close> sanitized values.
\<close>

theorem IN_placeholders_match_sanitized_params:
  "validate_identifier table (Some col) \<Longrightarrow> py_upper op = ''IN'' \<Longrightarrow>
   where_conditions table pre = Inr cs_pre \<Longrightarrow> where_conditions table post = Inr cs_post \<Longrightarrow>
   \<exists>c ps_pre ps_post.
     where_condition table (col, op, VList vs) = Inr c
     \<and> count_placeholders c = length vs
     \<and> as_string c = quote_ident col @ '' IN ('' @ py_join '', '' (replicate (length vs) ''%s'') @ '')''
     \<and> filter_params pre = Inr ps_pre \<and> length ps_pre = sum_list (map count_placeholders cs_pre)
     \<and> filter_params post = Inr ps_post \<and> length ps_post = sum_list (map count_placeholders cs_post)
     \<and> sent (snd (filter_multiple_values exec d table (pre @ (col, op, VList vs) # post))) =
         sent d @ [(''SELECT * FROM '' @ quote_ident table @ '' WHERE ''
                      @ py_join '' AND '' (map as_string (cs_pre @ c # cs_post)),
                    ps_pre @ map sanitize_value vs @ ps_post)]
     \<and> (validate_identifier table (Some update_column) \<and> \<not> endswith update_column ''_id'' \<longrightarrow>
          sent (snd (update_multiple_records exec d table col vs update_column new_value)) =
            sent d @ [(''UPDATE '' @ quote_ident table @ '' SET '' @ quote_ident update_column
                         @ '' = %s WHERE '' @ as_string c,
                       sanitize_value new_value # map sanitize_value vs)])"
proof -
  assume column: "validate_identifier table (Some col)" and op: "py_upper op = ''IN''"
    and pre: "where_conditions table pre = Inr cs_pre"
    and post: "where_conditions table post = Inr cs_post"
  let ?c = "Composed [Identifier col, SQL '' IN ('',
              sql_join (SQL '', '') (replicate (length vs) Placeholder), SQL '')'']"
  have table: "validate_identifier table None"
    using column by (rule validate_column_table)
  have c: "where_condition table (col, op, VList vs) = Inr ?c"
    using where_condition_IN [OF column op, of "VList vs" "length vs"] by simp
  have count: "count_placeholders ?c = length vs"
    by (simp del: map_replicate)
  have rendered: "as_string ?c =
      quote_ident col @ '' IN ('' @ py_join '', '' (replicate (length vs) ''%s'') @ '')''"
    by simp
  from filter_params_count [OF pre] obtain ps_pre
    where ps_pre: "filter_params pre = Inr ps_pre"
      "length ps_pre = sum_list (map count_placeholders cs_pre)"
    by blast
  from filter_params_count [OF post] obtain ps_post
    where ps_post: "filter_params post = Inr ps_post"
      "length ps_post = sum_list (map count_placeholders cs_post)"
    by blast
  from c post have "where_conditions table ((col, op, VList vs) # post) = Inr (?c # cs_post)"
    by (simp add: bind_err_def)
  with pre have conds:
    "where_conditions table (pre @ (col, op, VList vs) # post) = Inr (cs_pre @ ?c # cs_post)"
    by (rule where_conditions_append)
  from op ps_post(1)
  have "filter_params ((col, op, VList vs) # post) = Inr (map sanitize_value vs @ ps_post)"
    by (simp add: bind_err_def)
  with ps_pre(1)
  have params: "filter_params (pre @ (col, op, VList vs) # post) =
      Inr (ps_pre @ map sanitize_value vs @ ps_post)"
    by (rule filter_params_append)
  have select: "sent (snd (filter_multiple_values exec d table (pre @ (col, op, VList vs) # post))) =
      sent d @ [(''SELECT * FROM '' @ quote_ident table @ '' WHERE ''
                   @ py_join '' AND '' (map as_string (cs_pre @ ?c # cs_post)),
                 ps_pre @ map sanitize_value vs @ ps_post)]"
    using filter_multiple_values_sent [OF conds _ params] by simp
  have update: "sent (snd (update_multiple_records exec d table col vs update_column new_value)) =
      sent d @ [(''UPDATE '' @ quote_ident table @ '' SET '' @ quote_ident update_column
                   @ '' = %s WHERE '' @ as_string ?c,
                 sanitize_value new_value # map sanitize_value vs)]"
    if update_column: "validate_identifier table (Some update_column)"
      and not_id: "\<not> endswith update_column ''_id''"
  proof -
    have parts: "set_parts table [(update_column, new_value)] =
        Inr [Composed [Identifier update_column, SQL '' = '', Placeholder]]"
      using update_column by (simp add: bind_err_def)
    have "py_upper ''IN'' = ''IN''"
      by (simp add: upper_char_def)
    from where_condition_IN [OF column this, of "VList vs" "length vs"]
    have conds: "where_conditions table [(col, ''IN'', VList vs)] = Inr [?c]"
      by (simp add: bind_err_def)
    show ?thesis
      unfolding update_multiple_records_def
      using column update_column not_id build_update_query_parts [OF table parts conds]
      by (simp add: call_execute_query_def Let_def split: prod.splits)
  qed
  from c count rendered ps_pre ps_post select update show ?thesis
    by blast
qed


theorem IN_placeholders_match_sanitized_params_witness:
  "sent (snd (filter_multiple_values (\<lambda>c q ps. (Some [], c)) \<lparr>sent = [], conn = ()\<rparr> ''products''
                [(''price'', ''>'', VInt 10),
                 (''category_id'', ''IN'', VList [VInt 1, VInt 2, VInt 3]),
                 (''sku'', ''LIKE'', VStr ''A;%'')]))
     = [(''SELECT * FROM \"products\" WHERE \"price\" > %s AND \"category_id\" IN (%s, %s, %s) AND \"sku\" LIKE %s'',
         [VInt 10, VInt 1, VInt 2, VInt 3, VStr ''A%''])] \<and>
   sent (snd (update_multiple_records (\<lambda>c q ps. (Some [], c)) \<lparr>sent = [], conn = ()\<rparr> ''products''
                ''category_id'' [VInt 1, VInt 2, VInt 3] ''price'' (VInt 5)))
     = [(''UPDATE \"products\" SET \"price\" = %s WHERE \"category_id\" IN (%s, %s, %s)'',
         [VInt 5, VInt 1, VInt 2, VInt 3])]"
proof -
  have column: "validate_identifier ''products'' (Some ''category_id'')"
    by (simp add: validate_identifier_def VALID_IDENTIFIERS_def)
  have update_column: "validate_identifier ''products'' (Some ''price'')"
    by (simp add: validate_identifier_def VALID_IDENTIFIERS_def)
  have not_id: "\<not> endswith ''price'' ''_id''"
    by (simp add: endswith_def)
  have op: "py_upper ''IN'' = ''IN''"
    by (simp add: upper_char_def)
  have pre: "where_conditions ''products'' [(''price'', ''>'', VInt 10)] =
      Inr [Composed [Identifier ''price'', SQL '' '', SQL ''>'', SQL '' '', Placeholder]]"
    by (simp add: where_condition_def bind_err_def validate_identifier_def
        VALID_IDENTIFIERS_def upper_char_def)
  have post: "where_conditions ''products'' [(''sku'', ''LIKE'', VStr ''A;%'')] =
      Inr [Composed [Identifier ''sku'', SQL '' '', SQL ''LIKE'', SQL '' '', Placeholder]]"
    by (simp add: where_condition_def bind_err_def validate_identifier_def
        VALID_IDENTIFIERS_def upper_char_def)
  have params_pre: "filter_params [(''price'', ''>'', VInt 10)] = Inr [VInt 10]"
    by (simp add: bind_err_def upper_char_def)
  have params_post: "filter_params [(''sku'', ''LIKE'', VStr ''A;%'')] = Inr [VStr ''A%'']"
    by (simp add: bind_err_def upper_char_def dangerous_chars_def)
  from IN_placeholders_match_sanitized_params [OF column op pre post,
      of "[VInt 1, VInt 2, VInt 3]" "\<lambda>c q ps. (Some [], c)" "\<lparr>sent = [], conn = ()\<rparr>"
         "''price''" "VInt 5"]
  obtain c where c:
      "as_string c = quote_ident ''category_id'' @ '' IN (''
          @ py_join '', '' (replicate (length [VInt 1, VInt 2, VInt 3]) ''%s'') @ '')''"
    and select: "sent (snd (filter_multiple_values (\<lambda>c q ps. (Some [], c)) \<lparr>sent = [], conn = ()\<rparr>
        ''products'' ([(''price'', ''>'', VInt 10)] @
           (''category_id'', ''IN'', VList [VInt 1, VInt 2, VInt 3]) #
           [(''sku'', ''LIKE'', VStr ''A;%'')]))) =
        sent \<lparr>sent = [], conn = ()\<rparr> @
        [(''SELECT * FROM '' @ quote_ident ''products'' @ '' WHERE ''
            @ py_join '' AND ''
                (map as_string
                   ([Composed [Identifier ''price'', SQL '' '', SQL ''>'', SQL '' '', Placeholder]]
                    @ c # [Composed [Identifier ''sku'', SQL '' '', SQL ''LIKE'', SQL '' '',
                                     Placeholder]])),
          [VInt 10] @ map sanitize_value [VInt 1, VInt 2, VInt 3] @ [VStr ''A%''])]"
    and update: "sent (snd (update_multiple_records (\<lambda>c q ps. (Some [], c)) \<lparr>sent = [], conn = ()\<rparr>
        ''products'' ''category_id'' [VInt 1, VInt 2, VInt 3] ''price'' (VInt 5))) =
        sent \<lparr>sent = [], conn = ()\<rparr> @
        [(''UPDATE '' @ quote_ident ''products'' @ '' SET '' @ quote_ident ''price''
            @ '' = %s WHERE '' @ as_string c,
          sanitize_value (VInt 5) # map sanitize_value [VInt 1, VInt 2, VInt 3])]"
    using update_column not_id unfolding params_pre params_post by blast
  from select update show ?thesis
    by (simp add: c quote_ident_def)
qed

subsection \<open>Identifier columns in UPDATE\<close>

lemma endswith_append [simp]: "endswith (s @ t) t"
  by (simp add: endswith_def)

text \<open>
  Claim C6, as stated: every attempt to build an UPDATE whose SET clause includes the
  table's primary-key-style column (\<open>product_id\<close> for \<open>products\<close>) is rejected and
  produces no statement text. \<open>build_update_query\<close> builds it.
\<close>

theorem primary_key_in_SET_counterexample:
  "map_sum id as_string
     (build_update_query ''products'' [(''product_id'', VInt 99)]
        [(''product_id'', ''='', VInt 1)])
     = Inr ''UPDATE \"products\" SET \"product_id\" = %s WHERE \"product_id\" = %s''"
  by (simp add: build_update_query_def bind_err_def where_condition_def
      validate_identifier_def VALID_IDENTIFIERS_def upper_char_def quote_ident_def
      sql_join_def)

text \<open>
  Claim C6, amended: the refusal is made by the callers of the builder, before anything
  is built. \<open>update_single_record\<close> prints that ID columns cannot be updated and returns,
  with nothing sent, whenever the updates contain the key \<open>id\<close> or the key formed from
  the table name without its last character followed by \<open>_id\<close>.
  \<open>update_multiple_records\<close> does the same for every update column that ends with
  \<open>_id\<close>, once the filter column and the update column have passed validation; with the
  key formed as above as update column it always returns with a message and nothing
  sent. The column is never dropped from the SET clause.
\<close>

theorem id_columns_refused_by_callers:
  "(''id'' \<in> set (map fst updates) \<or> butlast table @ ''_id'' \<in> set (map fst updates) \<longrightarrow>
      update_single_record exec d table record_id updates = (Inl Cannot_update_ID_columns, d))
   \<and> (validate_identifier table (Some filter_column) \<and>
        validate_identifier table (Some update_column) \<and> endswith update_column ''_id'' \<longrightarrow>
      update_multiple_records exec d table filter_column filter_values update_column new_value
        = (Inl Cannot_update_ID_columns, d))
   \<and> (update_column = butlast table @ ''_id'' \<longrightarrow>
      (\<exists>m. update_multiple_records exec d table filter_column filter_values update_column
              new_value = (Inl m, d)))"
  by (simp add: update_single_record_def update_multiple_records_def)

theorem id_columns_refused_by_callers_witness:
  "update_single_record (\<lambda>c q ps. (Some [], c)) \<lparr>sent = [], conn = ()\<rparr> ''products'' (VInt 1)
     [(''price'', VInt 5), (''product_id'', VInt 99)]
     = (Inl Cannot_update_ID_columns, \<lparr>sent = [], conn = ()\<rparr>) \<and>
   update_multiple_records (\<lambda>c q ps. (Some [], c)) \<lparr>sent = [], conn = ()\<rparr> ''products''
     ''price'' [VInt 10] ''product_id'' (VInt 99)
     = (Inl Cannot_update_ID_columns, \<lparr>sent = [], conn = ()\<rparr>)"
  using id_columns_refused_by_callers
    [of "[(''price'', VInt 5), (''product_id'', VInt 99)]" "''products''"
        "\<lambda>c q ps. (Some [], c)" "\<lparr>sent = [], conn = ()\<rparr>" "VInt 1"
        "''price''" "''product_id''" "[VInt 10]" "VInt 99"]
  by (simp add: validate_identifier_def VALID_IDENTIFIERS_def endswith_def)

subsection \<open>Multi-row insert\<close>

text \<open>
  Claim C7: when some row of a multi-row insert has a key set different from the first
  row's, \<open>insert_multiple_records\<close> prints that all records must have the same columns
  and returns; no statement is built and nothing is sent to the database.
\<close>

theorem insert_multiple_records_column_mismatch:
  "rec \<in> set records \<Longrightarrow> set (map fst rec) \<noteq> set (map fst (hd records)) \<Longrightarrow>
   insert_multiple_records exec d table_name records =
     (Inl All_records_must_have_the_same_columns, d)"
proof -
  assume member: "rec \<in> set records"
    and differs: "set (map fst rec) \<noteq> set (map fst (hd records))"
  from member obtain first others where records: "records = first # others"
    by (cases records) auto
  from member differs
  have "list_ex (\<lambda>r. set (map fst r) \<noteq> set (map fst first)) records"
    unfolding list_ex_iff records by (intro bexI [of _ rec]) simp_all
  then show ?thesis
    unfolding insert_multiple_records_def records by (simp only: list.case Let_def if_True)
qed

theorem insert_multiple_records_column_mismatch_witness:
  "insert_multiple_records (\<lambda>c q ps. (None, c)) \<lparr>sent = [], conn = ()\<rparr> ''categories''
     [[(''category_name'', VStr ''Tools''), (''description'', VStr ''Hand tools'')],
      [(''category_name'', VStr ''Toys'')]]
   = (Inl All_records_must_have_the_same_columns, \<lparr>sent = [], conn = ()\<rparr>)"
  using insert_multiple_records_column_mismatch
    [of "[(''category_name'', VStr ''Toys'')]"
        "[[(''category_name'', VStr ''Tools''), (''description'', VStr ''Hand tools'')],
          [(''category_name'', VStr ''Toys'')]]"
        "\<lambda>c q ps. (None, c)" "\<lparr>sent = [], conn = ()\<rparr>" "''categories''"]
  by simp

subsection \<open>The documented SELECT example\<close>

text \<open>
  Claim C8, as stated: the SELECT built for table \<open>products\<close> with the conditions
  \<^verbatim>\<open>[("price", ">", 10), ("category_id", "IN", [1,2,3])]\<close> has exactly the text
  \<^verbatim>\<open>SELECT * FROM products WHERE price > ? AND category_id IN (?, ?, ?)\<close>. The text
  the code renders is a different string.
\<close>

theorem select_round_trip_text_counterexample:
  "map_sum id as_string
     (build_select_query ''products''
        (Some [(''price'', ''>'', VInt 10),
               (''category_id'', ''IN'', VList [VInt 1, VInt 2, VInt 3])]))
   \<noteq> Inr ''SELECT * FROM products WHERE price > ? AND category_id IN (?, ?, ?)''"
  by (simp add: build_select_query_def bind_err_def where_condition_def
      validate_identifier_def VALID_IDENTIFIERS_def upper_char_def quote_ident_def
      sql_join_def)

text \<open>
  Claim C8, amended: the statement built for that request renders, with identifiers
  between double quotes and \<^verbatim>\<open>%s\<close> as the placeholder, as
  \<^verbatim>\<open>SELECT * FROM "products" WHERE "price" > %s AND "category_id" IN (%s, %s, %s)\<close>,
  and \<open>filter_multiple_values\<close> hands it to the database manager with the parameters
  \<open>[10, 1, 2, 3]\<close> in that order.
\<close>

theorem select_round_trip:
  "map_sum id as_string
     (build_select_query ''products''
        (Some [(''price'', ''>'', VInt 10),
               (''category_id'', ''IN'', VList [VInt 1, VInt 2, VInt 3])]))
     = Inr ''SELECT * FROM \"products\" WHERE \"price\" > %s AND \"category_id\" IN (%s, %s, %s)''
   \<and> sent (snd (filter_multiple_values exec d ''products''
                   [(''price'', ''>'', VInt 10),
                    (''category_id'', ''IN'', VList [VInt 1, VInt 2, VInt 3])]))
     = sent d @
       [(''SELECT * FROM \"products\" WHERE \"price\" > %s AND \"category_id\" IN (%s, %s, %s)'',
         [VInt 10, VInt 1, VInt 2, VInt 3])]"
proof -
  let ?fs = "[(''price'', ''>'', VInt 10),
              (''category_id'', ''IN'', VList [VInt 1, VInt 2, VInt 3])]"
  let ?text =
    "''SELECT * FROM \"products\" WHERE \"price\" > %s AND \"category_id\" IN (%s, %s, %s)''"
  have built: "map_sum id as_string (build_select_query ''products'' (Some ?fs)) = Inr ?text"
    by (simp add: build_select_query_def bind_err_def where_condition_def
        validate_identifier_def VALID_IDENTIFIERS_def upper_char_def quote_ident_def
        sql_join_def)
  then obtain q where q: "build_select_query ''products'' (Some ?fs) = Inr q"
    and rendered: "as_string q = ?text"
    by (cases "build_select_query ''products'' (Some ?fs)") auto
  have params: "filter_params ?fs = Inr [VInt 10, VInt 1, VInt 2, VInt 3]"
    by (simp add: bind_err_def upper_char_def)
  have valid: "find (\<lambda>(col, op, val). \<not> validate_identifier ''products'' (Some col)) ?fs = None"
    by (simp add: validate_identifier_def VALID_IDENTIFIERS_def)
  have "sent (snd (filter_multiple_values exec d ''products'' ?fs))
          = sent d @ [(?text, [VInt 10, VInt 1, VInt 2, VInt 3])]"
    unfolding filter_multiple_values_def valid q params
    by (simp add: bind_err_def call_execute_query_def rendered split: prod.splits)
  with built show ?thesis by (rule conjI)
qed

theorem select_round_trip_witness:
  "sent (snd (filter_multiple_values (\<lambda>c q ps. (Some [], c)) \<lparr>sent = [], conn = ()\<rparr> ''products''
                   [(''price'', ''>'', VInt 10),
                    (''category_id'', ''IN'', VList [VInt 1, VInt 2, VInt 3])]))
     = [(''SELECT * FROM \"products\" WHERE \"price\" > %s AND \"category_id\" IN (%s, %s, %s)'',
         [VInt 10, VInt 1, VInt 2, VInt 3])]"
  using select_round_trip [of "\<lambda>c q ps. (Some [], c)" "\<lparr>sent = [], conn = ()\<rparr>"]
  by simp

subsection \<open>Related-record insertion\<close>











lemma capture_id_None [simp]: "capture_id None idc ids = Inr ids"
  by (simp add: capture_id_def)










end
